theory Spec2Isabelle
  imports Complex_Main "HOL-Library.AList"
begin

section \<open>Decimal amounts and currency rounding\<close>

text \<open>
  The program computes with Python \<^verbatim>\<open>Decimal\<close> values. They are modelled as rationals:
  sums, differences and products of finite decimals are the same numbers in both. A quotient
  (every \<^verbatim>\<open>/ Decimal("12")\<close> of the source) is the exact quotient here, where Python keeps 28
  significant digits of it; the special values NaN and Infinity are outside the model.

  \<^verbatim>\<open>round_currency\<close> is \<^verbatim>\<open>amount.quantize(Decimal('0.01'), rounding=ROUND_HALF_UP)\<close>:
  to the nearest cent, a tie going away from zero.
\<close>

definition round_currency :: "rat \<Rightarrow> rat" where
  "round_currency amount =
     (if 0 \<le> amount then of_int \<lfloor>amount * 100 + 1 / 2\<rfloor> / 100
      else - (of_int \<lfloor>- amount * 100 + 1 / 2\<rfloor> / 100))"

section \<open>Strings\<close>

text \<open>
  \<^verbatim>\<open>str.upper\<close>, \<^verbatim>\<open>str.lower\<close>, \<^verbatim>\<open>str.replace('_', ' ')\<close> and \<^verbatim>\<open>str.title\<close> on ASCII text
  (labels with letters beyond ASCII are outside the model).
\<close>

definition is_upper_char :: "char \<Rightarrow> bool" where
  "is_upper_char c = (let n = of_char c :: nat in 65 \<le> n \<and> n \<le> 90)"

definition is_lower_char :: "char \<Rightarrow> bool" where
  "is_lower_char c = (let n = of_char c :: nat in 97 \<le> n \<and> n \<le> 122)"

definition upper_char :: "char \<Rightarrow> char" where
  "upper_char c = (if is_lower_char c then char_of (of_char c - 32 :: nat) else c)"

definition lower_char :: "char \<Rightarrow> char" where
  "lower_char c = (if is_upper_char c then char_of (of_char c + 32 :: nat) else c)"

definition upper :: "string \<Rightarrow> string" where
  "upper s = map upper_char s"

definition lower :: "string \<Rightarrow> string" where
  "lower s = map lower_char s"

definition replace_char :: "char \<Rightarrow> char \<Rightarrow> string \<Rightarrow> string" where
  "replace_char old new s = map (\<lambda>c. if c = old then new else c) s"

fun title_from :: "bool \<Rightarrow> string \<Rightarrow> string" where
  "title_from previous_is_cased [] = []"
| "title_from previous_is_cased (c # cs) =
     (if is_lower_char c then
        (if previous_is_cased then c else upper_char c) # title_from True cs
      else if is_upper_char c then
        (if previous_is_cased then lower_char c else c) # title_from True cs
      else c # title_from False cs)"

definition title :: "string \<Rightarrow> string" where
  "title s = title_from False s"

text \<open>\<^verbatim>\<open>sep.join(parts)\<close> on lists of text.\<close>

fun join :: "'a list \<Rightarrow> 'a list list \<Rightarrow> 'a list" where
  "join sep [] = []"
| "join sep [p] = p"
| "join sep (p # q # ps) = p @ sep @ join sep (q # ps)"

text \<open>
  A derivation note is an f-string. Python renders a \<^verbatim>\<open>Decimal\<close> from its digits and
  exponent, which a rational does not keep, so a note is kept as its pieces: literal text,
  and each interpolated \<^verbatim>\<open>Decimal\<close> with its format specification (\<open>''''\<close> for a plain
  \<^verbatim>\<open>{d}\<close>, \<open>''.2f''\<close> for \<^verbatim>\<open>{d:.2f}\<close>).
\<close>

datatype piece = Lit string | Fmt rat string

type_synonym note_text = "piece list"

section \<open>Data model (app/models)\<close>

type_synonym date = string

record employee_input =
  employee_id :: string
  name :: string
  jurisdiction :: string
  gross_salary :: rat
  hourly_rate :: "rat option"
  period_start :: date
  period_end :: date
  regular_hours :: rat
  overtime_hours :: rat
  allowances :: "(string \<times> rat) list"
  deductions :: "(string \<times> rat) list"
  tax_exempt :: bool
  tax_percentage :: "rat option"
  dependents :: int
  aov_exempt :: bool
  aww_exempt :: bool

text \<open>
  \<^verbatim>\<open>allowances\<close> and \<^verbatim>\<open>deductions\<close> are Python dicts, iterated in insertion order: association
  lists in that order. \<^verbatim>\<open>PayrollLineItem\<close>; the fields \<^verbatim>\<open>name\<close> and \<^verbatim>\<open>notes\<close> are
  \<open>item_name\<close> and \<open>item_notes\<close> here.
\<close>

record payroll_line_item =
  code :: string
  item_name :: string
  category :: string
  amount :: rat
  rate :: "rat option"
  base_amount :: "rat option"
  item_notes :: "note_text option"

text \<open>
  \<^verbatim>\<open>PayrollCalculationResult\<close>. The fields copied from the employee and from the calculator
  carry the prefix \<open>res_\<close>; \<^verbatim>\<open>calculation_date\<close> (today's date) is left out.
\<close>

record payroll_calculation_result =
  res_employee_id :: string
  res_jurisdiction :: string
  res_period_start :: date
  res_period_end :: date
  gross_total :: rat
  deductions_total :: rat
  net_salary :: rat
  res_line_items :: "payroll_line_item list"
  earnings :: "string \<rightharpoonup> rat"
  statutory_deductions :: "string \<rightharpoonup> rat"
  other_deductions :: "string \<rightharpoonup> rat"
  calculation_notes :: "string list"
  res_warnings :: "string list"

section \<open>The base calculator (app/calculators/base)\<close>

text \<open>
  The mutable fields of a calculator instance, passed through every stage (\<^verbatim>\<open>self.notes\<close> is
  \<open>calc_notes\<close> here).
\<close>

record calc_state =
  line_items :: "payroll_line_item list"
  warnings :: "string list"
  calc_notes :: "string list"

definition add_line_item ::
  "string \<Rightarrow> string \<Rightarrow> string \<Rightarrow> rat \<Rightarrow> rat option \<Rightarrow> rat option \<Rightarrow> note_text option \<Rightarrow>
   calc_state \<Rightarrow> calc_state" where
  "add_line_item code' name' category' amount' rate' base_amount' notes' s =
     s\<lparr>line_items := line_items s @
        [\<lparr>code = code', item_name = name', category = category',
          amount = round_currency amount', rate = rate', base_amount = base_amount',
          item_notes = notes'\<rparr>]\<rparr>"

definition append_warning :: "string \<Rightarrow> calc_state \<Rightarrow> calc_state" where
  "append_warning w s = s\<lparr>warnings := warnings s @ [w]\<rparr>"

text \<open>\<^verbatim>\<open>calculate_other_deductions\<close>: the loop over \<^verbatim>\<open>employee.deductions.items()\<close>.\<close>

fun other_deductions_loop :: "(string \<times> rat) list \<Rightarrow> rat \<Rightarrow> calc_state \<Rightarrow> rat \<times> calc_state" where
  "other_deductions_loop [] total' s = (total', s)"
| "other_deductions_loop ((code', amount') # rest) total' s =
     other_deductions_loop rest (total' + amount')
       (add_line_item (''DED_'' @ upper code') (title (replace_char (CHR ''_'') (CHR '' '') code'))
          ''DEDUCTION'' amount' None None None s)"

definition calculate_other_deductions :: "employee_input \<Rightarrow> calc_state \<Rightarrow> rat \<times> calc_state" where
  "calculate_other_deductions employee s = other_deductions_loop (deductions employee) 0 s"

text \<open>
  \<^verbatim>\<open>calculate_progressive_tax\<close>: the loop over the brackets, with its \<^verbatim>\<open>break\<close>, carries the
  running tax and the note fragments.
\<close>

fun progressive_loop ::
  "rat \<Rightarrow> (rat \<times> rat \<times> rat) list \<Rightarrow> rat \<Rightarrow> note_text list \<Rightarrow> rat \<times> note_text list" where
  "progressive_loop taxable_amount [] tax notes_parts = (tax, notes_parts)"
| "progressive_loop taxable_amount ((lower', upper', rate') # rest) tax notes_parts =
     (if taxable_amount \<le> lower' then (tax, notes_parts)
      else
        let bracket_amount = min taxable_amount upper' - lower';
            bracket_tax = bracket_amount * rate'
        in progressive_loop taxable_amount rest (tax + bracket_tax)
             (notes_parts @ [[Fmt (rate' * 100) '''', Lit ''% on '', Fmt bracket_amount '''']]))"

definition calculate_progressive_tax :: "rat \<Rightarrow> (rat \<times> rat \<times> rat) list \<Rightarrow> rat \<times> note_text" where
  "calculate_progressive_tax taxable_amount brackets =
     (let (tax, notes_parts) = progressive_loop taxable_amount brackets 0 [];
          notes' = (if notes_parts \<noteq> [] then join [Lit '' + ''] notes_parts else [Lit ''No tax''])
      in (round_currency tax, notes'))"

text \<open>
  The abstract methods of \<^verbatim>\<open>BasePayrollCalculator\<close>: a calculator is the record of its three
  stage implementations.
\<close>

record calculator =
  calculate_gross :: "employee_input \<Rightarrow> calc_state \<Rightarrow> rat \<times> calc_state"
  calculate_tax :: "employee_input \<Rightarrow> rat \<Rightarrow> calc_state \<Rightarrow> rat \<times> calc_state"
  calculate_social_security ::
    "employee_input \<Rightarrow> rat \<Rightarrow> calc_state \<Rightarrow> (string \<times> rat) list \<times> calc_state"

text \<open>The loop of \<^verbatim>\<open>calculate\<close> that adds the allowances that are paid out.\<close>

fun net_allowances_loop :: "(string \<times> rat) list \<Rightarrow> rat \<Rightarrow> rat" where
  "net_allowances_loop [] net_salary' = net_salary'"
| "net_allowances_loop ((allowance_code, amount') # rest) net_salary' =
     net_allowances_loop rest
       (if lower allowance_code \<notin> set [''phone'', ''telefoon''] then net_salary' + amount'
        else net_salary')"

text \<open>A dict comprehension \<^verbatim>\<open>{item.code: item.amount for item in ...}\<close>: a later item wins.\<close>

definition dict_of_items :: "payroll_line_item list \<Rightarrow> (string \<rightharpoonup> rat)" where
  "dict_of_items items = foldl (\<lambda>d item. d(code item \<mapsto> amount item)) Map.empty items"

definition statutory_codes :: "string list" where
  "statutory_codes = [''TAX'', ''AOV'', ''AWW'', ''CESANTIA'', ''SOCIAL_SEC'']"

definition calculate :: "calculator \<Rightarrow> employee_input \<Rightarrow> payroll_calculation_result" where
  "calculate calc employee =
     (let s0 = \<lparr>line_items = [], warnings = [], calc_notes = []\<rparr>;
          (gross_total', s1) = calculate_gross calc employee s0;
          (tax_amount, s2) = calculate_tax calc employee gross_total' s1;
          (social_security, s3) = calculate_social_security calc employee gross_total' s2;
          (other_deductions_total, s4) = calculate_other_deductions employee s3;
          deductions_total' = tax_amount + sum_list (map snd social_security) + other_deductions_total;
          net_salary' = net_allowances_loop (allowances employee) (gross_salary employee);
          net_salary' = net_salary' - deductions_total';
          earnings_dict = dict_of_items (filter (\<lambda>item. category item = ''EARNING'') (line_items s4));
          statutory_dict = dict_of_items (filter (\<lambda>item. category item = ''DEDUCTION'' \<and>
                                code item \<in> set statutory_codes) (line_items s4));
          other_dict = dict_of_items (filter (\<lambda>item. category item = ''DEDUCTION'' \<and>
                                code item \<notin> set statutory_codes) (line_items s4))
      in \<lparr>res_employee_id = employee_id employee,
          res_jurisdiction = jurisdiction employee,
          res_period_start = period_start employee,
          res_period_end = period_end employee,
          gross_total = round_currency gross_total',
          deductions_total = round_currency deductions_total',
          net_salary = round_currency net_salary',
          res_line_items = line_items s4,
          earnings = earnings_dict,
          statutory_deductions = statutory_dict,
          other_deductions = other_dict,
          calculation_notes = calc_notes s4,
          res_warnings = warnings s4\<rparr>)"

section \<open>St. Maarten, Aruba and Bonaire\<close>

text \<open>
  The loop over \<^verbatim>\<open>employee.allowances.items()\<close> that every \<^verbatim>\<open>calculate_gross\<close> has, in the
  same words in each of the four calculators.
\<close>

fun allowances_loop :: "(string \<times> rat) list \<Rightarrow> rat \<Rightarrow> calc_state \<Rightarrow> rat \<times> calc_state" where
  "allowances_loop [] gross s = (gross, s)"
| "allowances_loop ((allowance_code, amount') # rest) gross s =
     allowances_loop rest (gross + amount')
       (add_line_item (''ALW_'' @ upper allowance_code)
          (title (replace_char (CHR ''_'') (CHR '' '') allowance_code))
          ''EARNING'' amount' None None None s)"

text \<open>\<^verbatim>\<open>calculate_gross\<close> of St. Maarten, Aruba and Bonaire (the same body in the three).\<close>

definition simple_calculate_gross :: "employee_input \<Rightarrow> calc_state \<Rightarrow> rat \<times> calc_state" where
  "simple_calculate_gross employee s =
     (let gross = gross_salary employee;
          s = add_line_item ''BASIC'' ''Basic Salary'' ''EARNING'' gross None None None s
      in allowances_loop (allowances employee) gross s)"

definition ST_MAARTEN_TAX_BRACKETS :: "(rat \<times> rat \<times> rat) list" where
  "ST_MAARTEN_TAX_BRACKETS = [(0, 2500, 0.10), (2500, 5000, 0.25), (5000, 999999999, 0.45)]"

definition SOCIAL_SECURITY_RATE :: rat where "SOCIAL_SECURITY_RATE = 0.065"
definition SOCIAL_SECURITY_MAX :: rat where "SOCIAL_SECURITY_MAX = 4500"

definition st_maarten_calculate_tax :: "employee_input \<Rightarrow> rat \<Rightarrow> calc_state \<Rightarrow> rat \<times> calc_state" where
  "st_maarten_calculate_tax employee gross s =
     (if tax_exempt employee then
        (0, add_line_item ''TAX'' ''Income Tax (Exempt)'' ''DEDUCTION'' 0 None None None s)
      else
        let (tax, notes') = calculate_progressive_tax gross ST_MAARTEN_TAX_BRACKETS
        in (tax, add_line_item ''TAX'' ''Income Tax'' ''DEDUCTION'' tax None (Some gross) (Some notes') s))"

definition st_maarten_calculate_social_security ::
  "employee_input \<Rightarrow> rat \<Rightarrow> calc_state \<Rightarrow> (string \<times> rat) list \<times> calc_state" where
  "st_maarten_calculate_social_security employee gross s =
     (let contributions = [];
          ss_base = min gross SOCIAL_SECURITY_MAX;
          ss_amount = ss_base * SOCIAL_SECURITY_RATE;
          s = add_line_item ''SOCIAL_SEC'' ''Social Security'' ''DEDUCTION'' ss_amount
                (Some SOCIAL_SECURITY_RATE) (Some ss_base) None s;
          contributions = AList.update ''SOCIAL_SEC'' ss_amount contributions
      in (contributions, s))"

definition st_maarten_calculator :: calculator where
  "st_maarten_calculator =
     \<lparr>calculate_gross = simple_calculate_gross,
      calculate_tax = st_maarten_calculate_tax,
      calculate_social_security = st_maarten_calculate_social_security\<rparr>"

definition ARUBA_TAX_BRACKETS :: "(rat \<times> rat \<times> rat) list" where
  "ARUBA_TAX_BRACKETS = [(0, 3000, 0.12), (3000, 999999999, 0.45)]"

definition aruba_calculate_tax :: "employee_input \<Rightarrow> rat \<Rightarrow> calc_state \<Rightarrow> rat \<times> calc_state" where
  "aruba_calculate_tax employee gross s =
     (let (tax, notes') = calculate_progressive_tax gross ARUBA_TAX_BRACKETS
      in (tax, add_line_item ''TAX'' ''Income Tax'' ''DEDUCTION'' tax None (Some gross) (Some notes') s))"

definition empty_calculate_social_security ::
  "employee_input \<Rightarrow> rat \<Rightarrow> calc_state \<Rightarrow> (string \<times> rat) list \<times> calc_state" where
  "empty_calculate_social_security employee gross s = ([], s)"

definition aruba_calculator :: calculator where
  "aruba_calculator =
     \<lparr>calculate_gross = simple_calculate_gross,
      calculate_tax = aruba_calculate_tax,
      calculate_social_security = empty_calculate_social_security\<rparr>"

definition BONAIRE_TAX_BRACKETS :: "(rat \<times> rat \<times> rat) list" where
  "BONAIRE_TAX_BRACKETS = [(0, 2800, 0.15), (2800, 999999999, 0.40)]"

definition bonaire_calculate_tax :: "employee_input \<Rightarrow> rat \<Rightarrow> calc_state \<Rightarrow> rat \<times> calc_state" where
  "bonaire_calculate_tax employee gross s =
     (let (tax, notes') = calculate_progressive_tax gross BONAIRE_TAX_BRACKETS
      in (tax, add_line_item ''TAX'' ''Payroll Tax'' ''DEDUCTION'' tax None (Some gross) (Some notes') s))"

definition bonaire_calculator :: calculator where
  "bonaire_calculator =
     \<lparr>calculate_gross = simple_calculate_gross,
      calculate_tax = bonaire_calculate_tax,
      calculate_social_security = empty_calculate_social_security\<rparr>"

section \<open>Curacao, 2026 rates\<close>

definition TAX_BRACKETS :: "(rat \<times> rat \<times> rat) list" where
  "TAX_BRACKETS =
     [(0, 2116.67, 0.0975),
      (2116.67, 2841.67, 0.15),
      (2841.67, 3783.33, 0.23),
      (3783.33, 5675, 0.30),
      (5675, 8041.67, 0.375),
      (8041.67, 11825, 0.465),
      (11825, 999999999, 0.465)]"

definition BASISAFTREK :: rat where "BASISAFTREK = 2915"
definition VASTE_AFTREK :: rat where "VASTE_AFTREK = 500"

definition AOV_AWW_EMPLOYEE_RATE :: rat where "AOV_AWW_EMPLOYEE_RATE = 0.065"
definition AOV_AWW_MAX_ANNUAL :: rat where "AOV_AWW_MAX_ANNUAL = 100000"
definition AOV_AWW_MAX_MONTHLY :: rat where "AOV_AWW_MAX_MONTHLY = AOV_AWW_MAX_ANNUAL / 12"

definition KORTING_BASE :: rat where "KORTING_BASE = 9340"
definition KORTING_PERCENTAGE :: rat where "KORTING_PERCENTAGE = 0.338"
definition KORTING_RATE :: rat where "KORTING_RATE = 0.065"
definition KORTING_MAX_INCOME :: rat where "KORTING_MAX_INCOME = 27633"

definition BVZ_EMPLOYEE_RATE :: rat where "BVZ_EMPLOYEE_RATE = 0.043"
definition BVZ_MAX_ANNUAL :: rat where "BVZ_MAX_ANNUAL = 150000"
definition BVZ_MAX_MONTHLY :: rat where "BVZ_MAX_MONTHLY = BVZ_MAX_ANNUAL / 12"
definition BVZ_VRIJSTELLING_ANNUAL :: rat where "BVZ_VRIJSTELLING_ANNUAL = 12000"
definition BVZ_GLIDING_START :: rat where "BVZ_GLIDING_START = 12000"
definition BVZ_GLIDING_END :: rat where "BVZ_GLIDING_END = 18000"

definition BVZ_GLIDING_SCALE :: "(rat \<times> rat \<times> rat) list" where
  "BVZ_GLIDING_SCALE =
     [(12000, 13200, 0.038),
      (13200, 14400, 0.028),
      (14400, 15600, 0.019),
      (15600, 16800, 0.011),
      (16800, 18000, 0.006)]"

definition AVBZ_EMPLOYEE_RATE :: rat where "AVBZ_EMPLOYEE_RATE = 0.015"
definition AVBZ_MAX_ANNUAL :: rat where "AVBZ_MAX_ANNUAL = 606247.08"
definition AVBZ_MAX_MONTHLY :: rat where "AVBZ_MAX_MONTHLY = AVBZ_MAX_ANNUAL / 12"
definition AVBZ_REDUCED_THRESHOLD :: rat where "AVBZ_REDUCED_THRESHOLD = 22789"
definition AVBZ_REDUCED_EMPLOYEE :: rat where "AVBZ_REDUCED_EMPLOYEE = 0.005"

definition OVERTIME_MULTIPLIER :: rat where "OVERTIME_MULTIPLIER = 1.5"

subsection \<open>The monthly tax table\<close>

text \<open>
  The table is the file \<^verbatim>\<open>data/maandtabel_2026.csv\<close>, read at every lookup. The file is an
  input of the model: \<open>None\<close> when it does not exist, otherwise its rows as \<^verbatim>\<open>csv.reader\<close>
  yields them, the header first. A cell is kept as what the code asks of its text: whether
  it is empty, and whether \<^verbatim>\<open>Decimal(text)\<close> returns a number or raises.
\<close>

datatype csv_cell = Empty | Number rat | Malformed

type_synonym csv_row = "csv_cell list"

text \<open>
  The loop over the rows after the header. \<open>last_tax\<close> is the variable \<^verbatim>\<open>tax\<close>, unbound
  (\<open>None\<close>) until a row has been parsed; reading it unbound after the loop raises, and the
  \<^verbatim>\<open>except Exception\<close> clause returns \<^verbatim>\<open>None\<close>, as it does when a cell does not parse.
\<close>

fun lookup_rows :: "rat \<Rightarrow> csv_row list \<Rightarrow> rat option \<Rightarrow> rat option" where
  "lookup_rows tax_base [] last_tax = last_tax"
| "lookup_rows tax_base (row # rows) last_tax =
     (case row of
        c0 # c1 # c2 # _ \<Rightarrow>
          (if c0 \<noteq> Empty \<and> c1 \<noteq> Empty \<and> c2 \<noteq> Empty then
             (case (c0, c1, c2) of
                (Number min_val, Number max_val, Number tax) \<Rightarrow>
                  (if min_val \<le> tax_base \<and> tax_base < max_val then Some tax
                   else lookup_rows tax_base rows (Some tax))
              | _ \<Rightarrow> None)
           else lookup_rows tax_base rows last_tax)
      | _ \<Rightarrow> lookup_rows tax_base rows last_tax)"

text \<open>
  \<^verbatim>\<open>lookup_tax_from_table\<close>, the second definition of that name in the class (the one in
  force); \<^verbatim>\<open>next(reader)\<close> on a file without a header line raises \<^verbatim>\<open>StopIteration\<close>, which
  the \<^verbatim>\<open>except\<close> clause turns into \<^verbatim>\<open>None\<close>.
\<close>

definition lookup_tax_from_table :: "csv_row list option \<Rightarrow> rat \<Rightarrow> rat option" where
  "lookup_tax_from_table tax_table_file tax_base =
     (case tax_table_file of
        None \<Rightarrow> None
      | Some [] \<Rightarrow> None
      | Some (header # rows) \<Rightarrow> lookup_rows tax_base rows None)"

subsection \<open>Gross, premium income, credit and discount\<close>

definition curacao_calculate_gross :: "employee_input \<Rightarrow> calc_state \<Rightarrow> rat \<times> calc_state" where
  "curacao_calculate_gross employee s =
     (let gross = 0;
          base_salary = gross_salary employee;
          s = add_line_item ''BASIC'' ''Basic Salary'' ''EARNING'' base_salary None None None s;
          gross = gross + base_salary;
          (gross, s) =
            (if overtime_hours employee > 0 then
               let overtime_rate =
                     (if hourly_rate employee \<noteq> None \<and> hourly_rate employee \<noteq> Some 0
                      then the (hourly_rate employee) * OVERTIME_MULTIPLIER
                      else
                        let standard_hours = 160;
                            calculated_hourly_rate = gross_salary employee / standard_hours
                        in calculated_hourly_rate * OVERTIME_MULTIPLIER);
                   overtime_pay = overtime_rate * overtime_hours employee;
                   s = add_line_item ''OVERTIME'' ''Overtime Pay'' ''EARNING'' overtime_pay
                         (Some OVERTIME_MULTIPLIER) (Some overtime_rate)
                         (Some [Fmt (overtime_hours employee) '''', Lit '' hours @ '',
                                Fmt overtime_rate '''', Lit ''/hour'']) s
               in (gross + overtime_pay, s)
             else (gross, s))
      in allowances_loop (allowances employee) gross s)"

definition calculate_premium_income_monthly :: "rat \<Rightarrow> rat" where
  "calculate_premium_income_monthly gross =
     (let monthly_vaste_aftrek = VASTE_AFTREK / 12;
          premium_income = gross - monthly_vaste_aftrek
      in max premium_income 0)"

definition calculate_aov_aww_korting_monthly :: "rat \<Rightarrow> rat" where
  "calculate_aov_aww_korting_monthly annual_premium_income =
     (if annual_premium_income \<ge> KORTING_MAX_INCOME then 0
      else
        let korting_annual =
              (KORTING_BASE - (KORTING_PERCENTAGE * annual_premium_income)) * KORTING_RATE;
            korting_annual = max korting_annual 0
        in korting_annual / 12)"

fun gliding_scale_loop :: "rat \<Rightarrow> (rat \<times> rat \<times> rat) list \<Rightarrow> rat" where
  "gliding_scale_loop annual_income [] = 0"
| "gliding_scale_loop annual_income ((bracket_start, bracket_end, discount) # rest) =
     (if bracket_start \<le> annual_income \<and> annual_income < bracket_end then discount
      else gliding_scale_loop annual_income rest)"

definition calculate_bvz_gliding_discount :: "rat \<Rightarrow> rat" where
  "calculate_bvz_gliding_discount annual_income =
     (if annual_income < BVZ_GLIDING_START then 0
      else if annual_income \<ge> BVZ_GLIDING_END then 0
      else gliding_scale_loop annual_income BVZ_GLIDING_SCALE)"

subsection \<open>Wage tax\<close>

definition curacao_calculate_tax ::
  "csv_row list option \<Rightarrow> employee_input \<Rightarrow> rat \<Rightarrow> calc_state \<Rightarrow> rat \<times> calc_state" where
  "curacao_calculate_tax tax_table_file employee gross s =
     (if tax_exempt employee then
        (0, add_line_item ''TAX'' ''Wage Tax (Exempt)'' ''DEDUCTION'' 0 None None
              (Some [Lit ''Tax exempt status''])
              (append_warning ''Employee is tax exempt'' s))
      else if tax_percentage employee \<noteq> None then
        let tax = gross * (the (tax_percentage employee) / 100)
        in (tax, add_line_item ''TAX'' ''Wage Tax'' ''DEDUCTION'' tax
                   (Some (the (tax_percentage employee) / 100)) (Some gross)
                   (Some [Lit ''Custom rate: '', Fmt (the (tax_percentage employee)) '''', Lit ''%''])
                   s)
      else
        let premium_income_monthly = calculate_premium_income_monthly gross;
            aov_aww_base = min premium_income_monthly AOV_AWW_MAX_MONTHLY;
            aov_aww_employee_raw = aov_aww_base * AOV_AWW_EMPLOYEE_RATE;
            premium_income_annual = premium_income_monthly * 12;
            korting_monthly =
              (if premium_income_annual < KORTING_MAX_INCOME
               then calculate_aov_aww_korting_monthly premium_income_annual else 0);
            aov_aww_final = max (aov_aww_employee_raw - korting_monthly) 0;
            tax_base = premium_income_monthly - aov_aww_final;
            (raw_tax, tax_method) =
              (case lookup_tax_from_table tax_table_file tax_base of
                 None \<Rightarrow>
                   (fst (calculate_progressive_tax tax_base TAX_BRACKETS),
                    [Lit ''Progressive brackets (fallback)''])
               | Some table_tax \<Rightarrow>
                   (table_tax,
                    [Lit ''Official table lookup (NAf '', Fmt tax_base ''.2f'', Lit '')'']));
            monthly_basisaftrek = BASISAFTREK / 12;
            tax_credits = monthly_basisaftrek;
            final_tax = max (raw_tax - tax_credits) 0
        in (final_tax,
            add_line_item ''TAX'' ''Wage Tax (Loonbelasting)'' ''DEDUCTION'' final_tax None
              (Some tax_base)
              (Some (tax_method @ [Lit '' | Gross tax: NAf '', Fmt raw_tax ''.2f'',
                                   Lit '' - Basisaftrek: NAf '', Fmt tax_credits ''.2f'']))
              s))"

subsection \<open>Social security\<close>

text \<open>
  The dict \<^verbatim>\<open>contributions\<close> is an association list in insertion order;
  \<^verbatim>\<open>contributions[k] = v\<close> is \<open>AList.update\<close>.
\<close>

definition curacao_calculate_social_security ::
  "employee_input \<Rightarrow> rat \<Rightarrow> calc_state \<Rightarrow> (string \<times> rat) list \<times> calc_state" where
  "curacao_calculate_social_security employee gross s =
     (let contributions = [];
          premium_income_monthly = calculate_premium_income_monthly gross;
          premium_income_annual = premium_income_monthly * 12;
          (contributions, s) =
            (if \<not> aov_exempt employee then
               let aov_aww_base = min premium_income_monthly AOV_AWW_MAX_MONTHLY;
                   aov_aww_employee_raw = aov_aww_base * AOV_AWW_EMPLOYEE_RATE;
                   s = add_line_item ''AOV_AWW'' ''AOV/AWW (6.5%)'' ''DEDUCTION''
                         aov_aww_employee_raw (Some AOV_AWW_EMPLOYEE_RATE) (Some aov_aww_base)
                         (Some [Lit ''Pension & Widow/er Insurance'']) s;
                   (korting_monthly, korting_note) =
                     (if premium_income_annual < KORTING_MAX_INCOME then
                        (calculate_aov_aww_korting_monthly premium_income_annual,
                         [Lit ''Credit: income < NAf '', Fmt KORTING_MAX_INCOME '',.0f''])
                      else (0, [Lit ''Income >= NAf '', Fmt KORTING_MAX_INCOME '',.0f'']));
                   s = add_line_item ''KORTING'' ''Premie Korting'' ''DEDUCTION''
                         (- korting_monthly) None None (Some korting_note) s;
                   aov_aww_employee_final = max (aov_aww_employee_raw - korting_monthly) 0
               in (AList.update ''AOV_AWW'' aov_aww_employee_final contributions, s)
             else
               (AList.update ''AOV_AWW'' 0 contributions,
                append_warning ''Employee is AOV/AWW exempt'' s));
          (contributions, s) =
            (if premium_income_annual < BVZ_VRIJSTELLING_ANNUAL then
               (AList.update ''BVZ'' 0 contributions,
                add_line_item ''BVZ'' ''BVZ (Health Insurance)'' ''DEDUCTION'' 0 None None
                  (Some [Lit ''Exempt: income below NAf '', Fmt BVZ_VRIJSTELLING_ANNUAL ''.2f'',
                         Lit ''/year'']) s)
             else
               let bvz_base = min premium_income_monthly BVZ_MAX_MONTHLY;
                   bvz_raw = bvz_base * BVZ_EMPLOYEE_RATE;
                   gliding_discount = calculate_bvz_gliding_discount premium_income_annual;
                   discount_amount = bvz_raw * gliding_discount;
                   bvz_final = bvz_raw - discount_amount;
                   notes' = [Lit ''Health Insurance''];
                   notes' = (if discount_amount > 0
                             then notes' @ [Lit '' | Discount: -'',
                                            Fmt (gliding_discount * 100) ''.1f'', Lit ''%'']
                             else notes')
               in (AList.update ''BVZ'' bvz_final contributions,
                   add_line_item ''BVZ'' ''BVZ (4.3%)'' ''DEDUCTION'' bvz_final
                     (Some BVZ_EMPLOYEE_RATE) (Some bvz_base) (Some notes') s));
          avbz_base = min premium_income_monthly AVBZ_MAX_MONTHLY;
          (avbz_rate, rate_note) =
            (if premium_income_annual < AVBZ_REDUCED_THRESHOLD
             then (AVBZ_REDUCED_EMPLOYEE, ''0.5% (reduced rate)'')
             else (AVBZ_EMPLOYEE_RATE, ''1.5%''));
          avbz_amount = avbz_base * avbz_rate;
          s = add_line_item ''AVBZ'' ''AVBZ (Special Medical)'' ''DEDUCTION'' avbz_amount
                (Some avbz_rate) (Some avbz_base) (Some [Lit rate_note]) s;
          contributions = AList.update ''AVBZ'' avbz_amount contributions;
          contributions = AList.update ''CESANTIA'' 0 contributions
      in (contributions, s))"

text \<open>The calculator, for a given state of the tax table file.\<close>

definition curacao_calculator :: "csv_row list option \<Rightarrow> calculator" where
  "curacao_calculator tax_table_file =
     \<lparr>calculate_gross = curacao_calculate_gross,
      calculate_tax = curacao_calculate_tax tax_table_file,
      calculate_social_security = curacao_calculate_social_security\<rparr>"

section \<open>The registry of calculators (app/main)\<close>

definition CALCULATORS :: "csv_row list option \<Rightarrow> (string \<times> calculator) list" where
  "CALCULATORS tax_table_file =
     [(''curacao'', curacao_calculator tax_table_file),
      (''st_maarten'', st_maarten_calculator),
      (''aruba'', aruba_calculator),
      (''bonaire'', bonaire_calculator)]"

section \<open>Notions of the specification\<close>




text \<open>The sum of the recorded amounts of the line items of one category.\<close>

definition ledger_sum :: "string \<Rightarrow> payroll_line_item list \<Rightarrow> rat" where
  "ledger_sum category' items =
     sum_list (map amount (filter (\<lambda>item. category item = category') items))"

text \<open>
  The progressive bracket evaluator in the words of the specification: the brackets whose
  lower bound is below the base, the tax of one bracket, its "rate% on amount" fragment, and
  the rounded sum with the joined note.
\<close>

definition applied_brackets :: "rat \<Rightarrow> (rat \<times> rat \<times> rat) list \<Rightarrow> (rat \<times> rat \<times> rat) list" where
  "applied_brackets base brackets = filter (\<lambda>(lower', upper', rate'). base > lower') brackets"

definition bracket_tax :: "rat \<Rightarrow> rat \<times> rat \<times> rat \<Rightarrow> rat" where
  "bracket_tax base = (\<lambda>(lower', upper', rate'). rate' * (min base upper' - lower'))"

definition bracket_fragment :: "rat \<Rightarrow> rat \<times> rat \<times> rat \<Rightarrow> note_text" where
  "bracket_fragment base =
     (\<lambda>(lower', upper', rate'). [Fmt (rate' * 100) '''', Lit ''% on '', Fmt (min base upper' - lower') ''''])"

definition spec_progressive_tax :: "rat \<Rightarrow> (rat \<times> rat \<times> rat) list \<Rightarrow> rat \<times> note_text" where
  "spec_progressive_tax base brackets =
     (round_currency (sum_list (map (bracket_tax base) (applied_brackets base brackets))),
      if applied_brackets base brackets = [] then [Lit ''No tax'']
      else join [Lit '' + ''] (map (bracket_fragment base) (applied_brackets base brackets)))"

text \<open>
  A bracket table that stands for a jurisdiction: lower bounds ascending from zero or more,
  no bracket with its upper bound below its lower bound, no negative rate. Ordered,
  non-overlapping brackets covering \<open>[0, \<infinity>)\<close> are of this kind.
\<close>

definition jurisdiction_brackets :: "(rat \<times> rat \<times> rat) list \<Rightarrow> bool" where
  "jurisdiction_brackets brackets =
     (sorted (map fst brackets) \<and>
      list_all (\<lambda>(lower', upper', rate'). 0 \<le> lower' \<and> lower' \<le> upper' \<and> 0 \<le> rate') brackets)"

text \<open>
  The statutory derivation chain of Curacao in the words of the specification: premium
  income, the capped primary premium after the credit, the tax base, the gross tax from the
  table or else from the brackets, and the final tax after the basic credit.
\<close>

definition premium_income :: "rat \<Rightarrow> rat" where
  "premium_income gross = max (gross - VASTE_AFTREK / 12) 0"

definition raw_primary_premium :: "rat \<Rightarrow> rat" where
  "raw_primary_premium gross =
     min (premium_income gross) (AOV_AWW_MAX_ANNUAL / 12) * AOV_AWW_EMPLOYEE_RATE"

definition premium_credit :: "rat \<Rightarrow> rat" where
  "premium_credit annual_income =
     (if annual_income \<ge> 27633 then 0 else max (9340 - 0.338 * annual_income) 0 * 0.065 / 12)"

definition final_primary_premium :: "rat \<Rightarrow> rat" where
  "final_primary_premium gross =
     max (raw_primary_premium gross - premium_credit (premium_income gross * 12)) 0"

definition tax_base_of :: "rat \<Rightarrow> rat" where
  "tax_base_of gross = premium_income gross - final_primary_premium gross"

definition table_or_brackets :: "csv_row list option \<Rightarrow> rat \<Rightarrow> rat" where
  "table_or_brackets tax_table_file tax_base =
     (case lookup_tax_from_table tax_table_file tax_base of
        Some table_tax \<Rightarrow> table_tax
      | None \<Rightarrow> fst (calculate_progressive_tax tax_base TAX_BRACKETS))"

definition final_tax_of :: "csv_row list option \<Rightarrow> rat \<Rightarrow> rat" where
  "final_tax_of tax_table_file gross =
     max (table_or_brackets tax_table_file (tax_base_of gross) - BASISAFTREK / 12) 0"

text \<open>
  The health insurance contribution (BVZ) in the words of the specification: the discount
  of each of the five sub-bands of annual premium income, and the premium of the three bands.
\<close>

definition bvz_band_discount :: "rat \<Rightarrow> rat" where
  "bvz_band_discount annual_income =
     (if annual_income < 13200 then 0.038
      else if annual_income < 14400 then 0.028
      else if annual_income < 15600 then 0.019
      else if annual_income < 16800 then 0.011
      else 0.006)"

definition bvz_capped_premium :: "rat \<Rightarrow> rat" where
  "bvz_capped_premium gross = min (premium_income gross) (BVZ_MAX_ANNUAL / 12) * 0.043"

definition bvz_premium :: "rat \<Rightarrow> rat" where
  "bvz_premium gross =
     (if premium_income gross * 12 < 12000 then 0
      else if premium_income gross * 12 < 18000 then
        bvz_capped_premium gross
          - bvz_capped_premium gross * bvz_band_discount (premium_income gross * 12)
      else bvz_capped_premium gross)"

text \<open>The line items that a stage appends, and the first of them with a given code.\<close>

definition appended_items :: "calc_state \<Rightarrow> calc_state \<Rightarrow> payroll_line_item list" where
  "appended_items before after = drop (length (line_items before)) (line_items after)"

definition item_with_code :: "string \<Rightarrow> payroll_line_item list \<Rightarrow> payroll_line_item option" where
  "item_with_code code' items = find (\<lambda>item. code item = code') items"

text \<open>
  The tax table in the words of the specification: a row of the table is a triple of
  numbers (minimum inclusive, maximum exclusive, gross tax); a row is unreadable when its
  first three cells are filled and one of them is not a number.
\<close>

definition well_formed_row :: "csv_row \<Rightarrow> bool" where
  "well_formed_row row =
     (case row of Number min_val # Number max_val # Number tax # _ \<Rightarrow> True | _ \<Rightarrow> False)"

definition unreadable_row :: "csv_row \<Rightarrow> bool" where
  "unreadable_row row =
     (case row of
        c0 # c1 # c2 # _ \<Rightarrow>
          c0 \<noteq> Empty \<and> c1 \<noteq> Empty \<and> c2 \<noteq> Empty \<and>
          (case (c0, c1, c2) of (Number min_val, Number max_val, Number tax) \<Rightarrow> False | _ \<Rightarrow> True)
      | _ \<Rightarrow> False)"

definition row_contains :: "rat \<Rightarrow> csv_row \<Rightarrow> bool" where
  "row_contains tax_base row =
     (case row of
        Number min_val # Number max_val # Number tax # _ \<Rightarrow> min_val \<le> tax_base \<and> tax_base < max_val
      | _ \<Rightarrow> False)"

definition row_tax :: "csv_row \<Rightarrow> rat option" where
  "row_tax row =
     (case row of Number min_val # Number max_val # Number tax # _ \<Rightarrow> Some tax | _ \<Rightarrow> None)"

definition table_lookup :: "rat \<Rightarrow> csv_row list \<Rightarrow> rat option" where
  "table_lookup tax_base rows =
     (case find (row_contains tax_base) rows of
        Some row \<Rightarrow> row_tax row
      | None \<Rightarrow> (if rows = [] then None else row_tax (last rows)))"

section \<open>Example inputs\<close>

text \<open>An employee with a base salary and nothing else, as the requests of the tests.\<close>

definition plain_employee :: "string \<Rightarrow> rat \<Rightarrow> employee_input" where
  "plain_employee jurisdiction' salary =
     \<lparr>employee_id = ''TEST001'', name = ''Test Employee'', jurisdiction = jurisdiction',
      gross_salary = salary, hourly_rate = None,
      period_start = ''2025-02-01'', period_end = ''2025-02-28'',
      regular_hours = 160, overtime_hours = 0, allowances = [], deductions = [],
      tax_exempt = False, tax_percentage = None, dependents = 0,
      aov_exempt = False, aww_exempt = False\<rparr>"

definition initial_state :: calc_state where
  "initial_state = \<lparr>line_items = [], warnings = [], calc_notes = []\<rparr>"


text \<open>
  A tax table file with a header line and two rows, and the same file with an unreadable
  lower bound in its second row.
\<close>

definition example_header :: csv_row where
  "example_header = [Malformed, Malformed, Malformed]"

definition example_rows :: "csv_row list" where
  "example_rows = [[Number 0, Number 2000, Number 100], [Number 2000, Number 5000, Number 500]]"


definition damaged_tax_table :: "csv_row list" where
  "damaged_tax_table =
     example_header # [[Number 0, Number 2000, Number 100]] @ [Malformed, Number 5000, Number 500] # []"

text \<open>An employee with the tax exemption flag set, and one with an override percentage.\<close>

definition exempt_employee :: "string \<Rightarrow> rat \<Rightarrow> employee_input" where
  "exempt_employee jurisdiction' salary = (plain_employee jurisdiction' salary)\<lparr>tax_exempt := True\<rparr>"

definition override_employee :: "string \<Rightarrow> rat \<Rightarrow> rat \<Rightarrow> employee_input" where
  "override_employee jurisdiction' salary percentage =
     (plain_employee jurisdiction' salary)\<lparr>tax_percentage := Some percentage\<rparr>"

section \<open>Currency rounding\<close>

lemma floor_half: "\<lfloor>(of_int k :: rat) + 1 / 2\<rfloor> = k"
  by linarith

lemma round_currency_nonneg: "0 \<le> x \<Longrightarrow> 0 \<le> round_currency x"
  by (simp add: round_currency_def)

lemma round_currency_neg_le: "x < 0 \<Longrightarrow> round_currency x \<le> 0"
  by (simp add: round_currency_def)

lemma round_currency_mono:
  assumes "x \<le> y"
  shows "round_currency x \<le> round_currency y"
proof -
  consider "0 \<le> x" | "x < 0" "0 \<le> y" | "y < 0" using assms by linarith
  then show ?thesis
  proof cases
    case 1
    then have "0 \<le> y" using assms by simp
    moreover have "\<lfloor>x * 100 + 1 / 2\<rfloor> \<le> \<lfloor>y * 100 + 1 / 2\<rfloor>"
      using assms by (intro floor_mono) simp
    ultimately show ?thesis using 1 by (simp add: round_currency_def divide_right_mono)
  next
    case 2
    then show ?thesis
      using round_currency_nonneg[of y] round_currency_neg_le[of x] by linarith
  next
    case 3
    then have "x < 0" using assms by simp
    moreover have "\<lfloor>- y * 100 + 1 / 2\<rfloor> \<le> \<lfloor>- x * 100 + 1 / 2\<rfloor>"
      using assms by (intro floor_mono) simp
    ultimately show ?thesis using 3 by (simp add: round_currency_def divide_right_mono)
  qed
qed

lemma round_currency_cents: "round_currency (of_int n / 100) = of_int n / 100"
proof (cases "0 \<le> n")
  case True
  have "\<lfloor>(of_int n :: rat) / 100 * 100 + 1 / 2\<rfloor> = n"
    using floor_half[of n] by simp
  with True show ?thesis by (simp add: round_currency_def)
next
  case False
  have "- ((of_int n :: rat) / 100) * 100 + 1 / 2 = of_int (- n) + 1 / 2" by simp
  then have "\<lfloor>- ((of_int n :: rat) / 100) * 100 + 1 / 2\<rfloor> = - n"
    using floor_half[of "- n"] by metis
  with False show ?thesis by (simp add: round_currency_def)
qed

lemma round_half_error: "\<bar>of_int \<lfloor>z + 1 / 2\<rfloor> - z\<bar> \<le> (1 / 2 :: rat)"
proof -
  have "of_int \<lfloor>z + 1 / 2\<rfloor> \<le> z + 1 / 2" "z + 1 / 2 < of_int \<lfloor>z + 1 / 2\<rfloor> + 1"
    by linarith+
  then show ?thesis by linarith
qed

lemma round_currency_error: "\<bar>round_currency x - x\<bar> \<le> 1 / 200"
proof (cases "0 \<le> x")
  case True
  then have "round_currency x * 100 = of_int \<lfloor>x * 100 + 1 / 2\<rfloor>"
    by (simp add: round_currency_def)
  then have "\<bar>round_currency x * 100 - x * 100\<bar> \<le> 1 / 2"
    using round_half_error[of "x * 100"] by simp
  then show ?thesis by linarith
next
  case False
  then have "- round_currency x * 100 = of_int \<lfloor>- x * 100 + 1 / 2\<rfloor>"
    by (simp add: round_currency_def)
  then have "\<bar>- round_currency x * 100 - (- x * 100)\<bar> \<le> 1 / 2"
    using round_half_error[of "- x * 100"] by simp
  then show ?thesis by linarith
qed

lemma round_currency_is_cents: "\<exists>n. round_currency x = of_int n / 100"
proof (cases "0 \<le> x")
  case True
  then show ?thesis by (auto simp: round_currency_def)
next
  case False
  then have "round_currency x = of_int (- \<lfloor>- x * 100 + 1 / 2\<rfloor>) / 100"
    by (simp add: round_currency_def)
  then show ?thesis by blast
qed

lemma round_currency_idem: "round_currency (round_currency x) = round_currency x"
proof -
  obtain n where "round_currency x = of_int n / 100" using round_currency_is_cents by blast
  then show ?thesis by (simp only: round_currency_cents)
qed

lemma round_currency_zero: "round_currency 0 = 0"
  using round_currency_cents[of 0] by simp

section \<open>The stages and the orchestrator\<close>








section \<open>The progressive bracket evaluator\<close>

lemma progressive_loop_takeWhile:
  "progressive_loop t bs tax parts =
     (tax + sum_list (map (bracket_tax t) (takeWhile (\<lambda>(l, u, r). l < t) bs)),
      parts @ map (bracket_fragment t) (takeWhile (\<lambda>(l, u, r). l < t) bs))"
proof (induction bs arbitrary: tax parts)
  case Nil
  then show ?case by simp
next
  case (Cons b bs)
  obtain l u r where b: "b = (l, u, r)" by (cases b)
  show ?case
  proof (cases "t \<le> l")
    case True
    then show ?thesis by (simp add: b)
  next
    case False
    then show ?thesis
      by (simp add: b Cons.IH Let_def bracket_tax_def bracket_fragment_def algebra_simps)
  qed
qed

lemma sorted_takeWhile_filter:
  "sorted (map fst bs) \<Longrightarrow>
   takeWhile (\<lambda>(l, u, r). l < (t::rat)) bs = filter (\<lambda>(l, u, r). l < t) bs"
proof (induction bs)
  case Nil
  then show ?case by simp
next
  case (Cons b bs)
  obtain l u r where b: "b = (l, u, r)" by (cases b)
  show ?case
  proof (cases "l < t")
    case True
    then show ?thesis using Cons by (simp add: b)
  next
    case False
    have "\<forall>x \<in> set bs. \<not> fst x < t" using Cons.prems False by (auto simp: b)
    then have "filter (\<lambda>x. fst x < t) bs = []" by (auto simp: filter_empty_conv)
    then show ?thesis using False by (simp add: b case_prod_unfold)
  qed
qed

lemma calculate_progressive_tax_takeWhile:
  "calculate_progressive_tax t bs =
     (round_currency (sum_list (map (bracket_tax t) (takeWhile (\<lambda>(l, u, r). l < t) bs))),
      if takeWhile (\<lambda>(l, u, r). l < t) bs = [] then [Lit ''No tax'']
      else join [Lit '' + ''] (map (bracket_fragment t) (takeWhile (\<lambda>(l, u, r). l < t) bs)))"
  by (simp add: calculate_progressive_tax_def progressive_loop_takeWhile)

lemma bracket_term_mono:
  assumes "l \<le> u" "0 \<le> r" "a \<le> b"
  shows "(if l < a then bracket_tax a (l, u, r) else 0) \<le> (if l < b then bracket_tax b (l, u, r) else 0)"
proof -
  have "l < a \<Longrightarrow> r * (min a u - l) \<le> r * (min b u - l)"
    using assms by (intro mult_left_mono) auto
  moreover have "l < b \<Longrightarrow> 0 \<le> r * (min b u - l)"
    using assms by (intro mult_nonneg_nonneg) auto
  ultimately show ?thesis using assms by (auto simp: bracket_tax_def)
qed

lemma sum_filter_as_if:
  "sum_list (map f (filter P xs)) = sum_list (map (\<lambda>x. if P x then f x else (0::rat)) xs)"
  by (induction xs) auto

lemma applied_sum_mono:
  assumes "list_all (\<lambda>(l, u, r). 0 \<le> l \<and> l \<le> u \<and> 0 \<le> r) bs" "a \<le> b"
  shows "sum_list (map (bracket_tax a) (applied_brackets a bs))
       \<le> sum_list (map (bracket_tax b) (applied_brackets b bs))"
  unfolding applied_brackets_def sum_filter_as_if
proof (rule sum_list_mono)
  fix x assume "x \<in> set bs"
  obtain l u r where x: "x = (l, u, r)" by (cases x)
  with \<open>x \<in> set bs\<close> assms(1) have "l \<le> u" "0 \<le> r" by (auto simp: list_all_iff)
  then show "(if (case x of (l, u, r) \<Rightarrow> l < a) then bracket_tax a x else 0)
          \<le> (if (case x of (l, u, r) \<Rightarrow> l < b) then bracket_tax b x else 0)"
    using bracket_term_mono[of l u r a b] assms(2) by (auto simp: x split: if_splits)
qed

section \<open>The Curacao stages\<close>

lemma premium_income_eq: "calculate_premium_income_monthly gross = premium_income gross"
  by (simp add: calculate_premium_income_monthly_def premium_income_def Let_def)

lemma korting_eq: "calculate_aov_aww_korting_monthly A = premium_credit A"
proof -
  have "max ((9340 - 338 / 10 ^ 3 * A) * (65 / 10 ^ 3)) 0 = max (9340 - 338 / 10 ^ 3 * A) 0 * (65 / 10 ^ 3)"
    by (simp add: max_def zero_le_mult_iff mult_le_0_iff)
  then show ?thesis
    by (simp add: calculate_aov_aww_korting_monthly_def premium_credit_def Let_def
        KORTING_BASE_def KORTING_PERCENTAGE_def KORTING_RATE_def KORTING_MAX_INCOME_def)
qed

lemma premium_credit_nonneg: "0 \<le> premium_credit A"
  by (simp add: premium_credit_def)

lemma curacao_tax_standard:
  assumes "\<not> tax_exempt e" "tax_percentage e = None"
  shows "curacao_calculate_tax file e gross s =
     (final_tax_of file gross,
      add_line_item ''TAX'' ''Wage Tax (Loonbelasting)'' ''DEDUCTION'' (final_tax_of file gross) None
        (Some (tax_base_of gross))
        (Some ((case lookup_tax_from_table file (tax_base_of gross) of
                  None \<Rightarrow> [Lit ''Progressive brackets (fallback)'']
                | Some t \<Rightarrow> [Lit ''Official table lookup (NAf '', Fmt (tax_base_of gross) ''.2f'', Lit '')''])
               @ [Lit '' | Gross tax: NAf '', Fmt (table_or_brackets file (tax_base_of gross)) ''.2f'',
                  Lit '' - Basisaftrek: NAf '', Fmt (BASISAFTREK / 12) ''.2f'']))
        s)"
proof -
  have k: "\<not> premium_income gross * 12 < KORTING_MAX_INCOME \<Longrightarrow>
           premium_credit (premium_income gross * 12) = 0"
    by (simp add: premium_credit_def KORTING_MAX_INCOME_def)
  show ?thesis
    using assms
    by (simp add: curacao_calculate_tax_def Let_def premium_income_eq korting_eq k final_tax_of_def
        tax_base_of_def final_primary_premium_def raw_primary_premium_def table_or_brackets_def
        AOV_AWW_MAX_MONTHLY_def split: option.split)
qed


lemma add_line_item_items:
  "line_items (add_line_item c n cat a r b nt s) =
     line_items s @ [\<lparr>code = c, item_name = n, category = cat, amount = round_currency a,
                       rate = r, base_amount = b, item_notes = nt\<rparr>]"
  by (simp add: add_line_item_def)

lemma curacao_tax_exempt:
  "tax_exempt e \<Longrightarrow> curacao_calculate_tax file e gross s =
     (0, add_line_item ''TAX'' ''Wage Tax (Exempt)'' ''DEDUCTION'' 0 None None
           (Some [Lit ''Tax exempt status'']) (append_warning ''Employee is tax exempt'' s))"
  by (simp add: curacao_calculate_tax_def)

lemma final_tax_of_nonneg: "0 \<le> final_tax_of file gross"
  by (simp add: final_tax_of_def)

lemma curacao_social_aov:
  "\<not> aov_exempt e \<Longrightarrow>
   map_of (fst (curacao_calculate_social_security e gross s)) ''AOV_AWW'' =
     Some (final_primary_premium gross)"
proof -
  have k: "\<not> premium_income gross * 12 < KORTING_MAX_INCOME \<Longrightarrow>
           premium_credit (premium_income gross * 12) = 0"
    by (simp add: premium_credit_def KORTING_MAX_INCOME_def)
  assume "\<not> aov_exempt e"
  then show ?thesis
    by (simp add: curacao_calculate_social_security_def Let_def split_def premium_income_eq
        korting_eq k final_primary_premium_def raw_primary_premium_def AOV_AWW_MAX_MONTHLY_def)
qed

lemma gliding_discount_in_band:
  "12000 \<le> A \<Longrightarrow> A < 18000 \<Longrightarrow> calculate_bvz_gliding_discount A = bvz_band_discount A"
  by (simp add: calculate_bvz_gliding_discount_def bvz_band_discount_def BVZ_GLIDING_SCALE_def
      BVZ_GLIDING_START_def BVZ_GLIDING_END_def)

lemma gliding_discount_outside_band:
  "A < 12000 \<or> 18000 \<le> A \<Longrightarrow> calculate_bvz_gliding_discount A = 0"
  by (auto simp: calculate_bvz_gliding_discount_def BVZ_GLIDING_START_def BVZ_GLIDING_END_def)

lemma band_discount_decreasing:
  "A \<le> A' \<Longrightarrow> bvz_band_discount A' \<le> bvz_band_discount A"
  by (simp add: bvz_band_discount_def)

lemma band_discount_strict:
  "A < b \<Longrightarrow> b \<le> A' \<Longrightarrow> b \<in> {13200, 14400, 15600, 16800} \<Longrightarrow>
   bvz_band_discount A' < bvz_band_discount A"
  by (auto simp: bvz_band_discount_def)

lemma curacao_social_bvz:
  "map_of (fst (curacao_calculate_social_security e gross s)) ''BVZ'' = Some (bvz_premium gross)"
proof -
  have g: "calculate_bvz_gliding_discount (premium_income gross * 12) =
     (if premium_income gross * 12 < 12000 \<or> 18000 \<le> premium_income gross * 12 then 0
      else bvz_band_discount (premium_income gross * 12))"
    using gliding_discount_in_band gliding_discount_outside_band by auto
  show ?thesis
    by (simp add: curacao_calculate_social_security_def Let_def split_def premium_income_eq g
        bvz_premium_def bvz_capped_premium_def BVZ_MAX_MONTHLY_def BVZ_EMPLOYEE_RATE_def
        BVZ_VRIJSTELLING_ANNUAL_def)
qed


lemma append_warning_items: "line_items (append_warning w s) = line_items s"
  by (simp add: append_warning_def)

lemma appended_items_append:
  "line_items s' = line_items s @ xs \<Longrightarrow> appended_items s s' = xs"
  by (simp add: appended_items_def)

lemma curacao_social_items:
  "\<exists>aov_items bvz_item avbz_item.
     line_items (snd (curacao_calculate_social_security e gross s)) =
       line_items s @ aov_items @ [bvz_item, avbz_item] \<and>
     map code aov_items = (if aov_exempt e then [] else [''AOV_AWW'', ''KORTING'']) \<and>
     list_all (\<lambda>item. category item = ''DEDUCTION'') aov_items \<and>
     code bvz_item = ''BVZ'' \<and> category bvz_item = ''DEDUCTION'' \<and>
     amount bvz_item = round_currency (bvz_premium gross) \<and>
     (premium_income gross * 12 < 12000 \<longrightarrow>
        amount bvz_item = 0 \<and>
        item_notes bvz_item =
          Some [Lit ''Exempt: income below NAf '', Fmt 12000 ''.2f'', Lit ''/year'']) \<and>
     (12000 \<le> premium_income gross * 12 \<longrightarrow>
        rate bvz_item = Some 0.043 \<and>
        base_amount bvz_item = Some (min (premium_income gross) (150000 / 12))) \<and>
     code avbz_item = ''AVBZ'' \<and> category avbz_item = ''DEDUCTION''"
proof -
  have g: "calculate_bvz_gliding_discount (premium_income gross * 12) =
     (if premium_income gross * 12 < 12000 \<or> 18000 \<le> premium_income gross * 12 then 0
      else bvz_band_discount (premium_income gross * 12))"
    using gliding_discount_in_band gliding_discount_outside_band by auto
  show ?thesis
  proof (cases "aov_exempt e")
    case True
    show ?thesis
      apply (rule exI[of _ "[]"])
      using True
      by (simp add: curacao_calculate_social_security_def Let_def split_def premium_income_eq g
        add_line_item_items append_warning_items round_currency_zero
        bvz_premium_def bvz_capped_premium_def BVZ_MAX_MONTHLY_def BVZ_EMPLOYEE_RATE_def
        BVZ_VRIJSTELLING_ANNUAL_def BVZ_MAX_ANNUAL_def)
  next
    case False
    show ?thesis
      apply (rule exI[of _ "take 2 (appended_items s (snd (curacao_calculate_social_security e gross s)))"])
      using False
      by (simp add: curacao_calculate_social_security_def Let_def split_def premium_income_eq g
        add_line_item_items append_warning_items round_currency_zero appended_items_def
        bvz_premium_def bvz_capped_premium_def BVZ_MAX_MONTHLY_def BVZ_EMPLOYEE_RATE_def
        BVZ_VRIJSTELLING_ANNUAL_def BVZ_MAX_ANNUAL_def)
  qed
qed

lemma find_bvz:
  assumes "map code aov_items = (if x then [] else [''AOV_AWW'', ''KORTING''])"
    "code bvz_item = ''BVZ''"
  shows "item_with_code ''BVZ'' (aov_items @ [bvz_item, avbz_item]) = Some bvz_item"
proof (cases x)
  case True
  then show ?thesis using assms by (simp add: item_with_code_def)
next
  case False
  then obtain a b where "aov_items = [a, b]" "code a = ''AOV_AWW''" "code b = ''KORTING''"
    using assms(1) by (auto simp: map_eq_Cons_conv)
  then show ?thesis using assms(2) by (simp add: item_with_code_def)
qed

lemma lookup_rows_well_formed:
  "list_all well_formed_row rows \<Longrightarrow>
   lookup_rows tb rows last_tax =
     (case find (row_contains tb) rows of
        Some row \<Rightarrow> row_tax row
      | None \<Rightarrow> (if rows = [] then last_tax else row_tax (last rows)))"
proof (induction rows arbitrary: last_tax)
  case Nil
  then show ?case by simp
next
  case (Cons row rows)
  from Cons.prems obtain a b t rest where row: "row = Number a # Number b # Number t # rest"
    by (auto simp: well_formed_row_def split: list.splits csv_cell.splits)
  show ?case
  proof (cases "a \<le> tb \<and> tb < b")
    case True
    then show ?thesis by (simp add: row row_contains_def row_tax_def)
  next
    case False
    have "list_all well_formed_row rows" using Cons.prems by simp
    from Cons.IH[OF this, of "Some t"] False show ?thesis
      by (auto simp: row row_contains_def row_tax_def split: option.splits)
  qed
qed

lemma lookup_rows_unreadable:
  "list_all well_formed_row good \<Longrightarrow> find (row_contains tb) good = None \<Longrightarrow>
   unreadable_row bad \<Longrightarrow> lookup_rows tb (good @ bad # rest) last_tax = None"
proof (induction good arbitrary: last_tax)
  case Nil
  then show ?case
    by (auto simp: unreadable_row_def split: list.splits csv_cell.splits)
next
  case (Cons row good)
  from Cons.prems(1) obtain a b t rest' where row: "row = Number a # Number b # Number t # rest'"
    by (auto simp: well_formed_row_def split: list.splits csv_cell.splits)
  have rc: "row_contains tb row \<longleftrightarrow> a \<le> tb \<and> tb < b"
    by (simp add: row row_contains_def)
  from Cons.prems(2) have "\<not> row_contains tb row" and nf: "find (row_contains tb) good = None"
    by (auto split: if_splits)
  then have nc: "\<not> (a \<le> tb \<and> tb < b)" "find (row_contains tb) good = None"
    using rc by simp_all
  have "list_all well_formed_row good" using Cons.prems(1) by simp
  from Cons.IH[OF this nc(2) Cons.prems(3), of "Some t"] nc(1) show ?case
    by (auto simp: row)
qed

lemma curacao_tax_override:
  "\<not> tax_exempt e \<Longrightarrow> tax_percentage e = Some pct \<Longrightarrow>
   curacao_calculate_tax file e gross s =
     (gross * (pct / 100),
      add_line_item ''TAX'' ''Wage Tax'' ''DEDUCTION'' (gross * (pct / 100)) (Some (pct / 100))
        (Some gross) (Some [Lit ''Custom rate: '', Fmt pct '''', Lit ''%'']) s)"
  by (simp add: curacao_calculate_tax_def Let_def)

lemma curacao_tax_one_item:
  "\<exists>item. line_items (snd (curacao_calculate_tax file e gross s)) = line_items s @ [item] \<and>
          code item = ''TAX'' \<and> category item = ''DEDUCTION''"
proof (cases "tax_exempt e")
  case True
  then show ?thesis by (simp add: curacao_tax_exempt add_line_item_items append_warning_items)
next
  case False
  show ?thesis
  proof (cases "tax_percentage e")
    case None
    with False show ?thesis by (simp add: curacao_tax_standard add_line_item_items)
  next
    case (Some pct)
    with False show ?thesis by (simp add: curacao_tax_override add_line_item_items)
  qed
qed

section \<open>Sums of rounded amounts and the groupings of the result\<close>

lemma round_currency_half_up:
  "round_currency (of_nat k / 100 + 1 / 200) = (of_nat k + 1) / 100"
proof -
  have "(of_nat k / 100 + 1 / 200) * 100 + 1 / 2 = (of_int (int k + 1) :: rat)" by simp
  then have "\<lfloor>((of_nat k :: rat) / 100 + 1 / 200) * 100 + 1 / 2\<rfloor> = int k + 1"
    by (metis floor_of_int)
  moreover have "(0::rat) \<le> of_nat k / 100 + 1 / 200" by simp
  ultimately show ?thesis by (simp add: round_currency_def)
qed

lemma round_currency_minus: "round_currency (- x) = - round_currency x"
proof -
  consider "0 < x" | "x = 0" | "x < 0" by linarith
  then show ?thesis
  proof cases
    case 1 then show ?thesis by (simp add: round_currency_def)
  next
    case 2 then show ?thesis by (simp add: round_currency_zero)
  next
    case 3 then show ?thesis by (simp add: round_currency_def)
  qed
qed

lemma sum_rounded_error:
  "\<bar>sum_list (map round_currency xs) - sum_list xs\<bar> \<le> of_nat (length xs) / 200"
proof (induction xs)
  case Nil
  then show ?case by simp
next
  case (Cons x xs)
  have "sum_list (map round_currency (x # xs)) - sum_list (x # xs) =
        (round_currency x - x) + (sum_list (map round_currency xs) - sum_list xs)"
    by simp
  then have "\<bar>sum_list (map round_currency (x # xs)) - sum_list (x # xs)\<bar> \<le>
        \<bar>round_currency x - x\<bar> + \<bar>sum_list (map round_currency xs) - sum_list xs\<bar>"
    by (metis abs_triangle_ineq)
  also have "\<dots> \<le> 1 / 200 + of_nat (length xs) / 200"
    by (intro add_mono round_currency_error Cons.IH)
  also have "\<dots> = of_nat (length (x # xs)) / 200"
    by (simp add: add_divide_distrib)
  finally show ?case .
qed

lemma sum_rounded_vs_rounded_sum:
  "\<bar>sum_list (map round_currency xs) - round_currency (sum_list xs)\<bar>
     \<le> (of_nat (length xs) + 1) / 200"
proof -
  have "sum_list (map round_currency xs) - round_currency (sum_list xs) =
        (sum_list (map round_currency xs) - sum_list xs) + (sum_list xs - round_currency (sum_list xs))"
    by simp
  then have "\<bar>sum_list (map round_currency xs) - round_currency (sum_list xs)\<bar> \<le>
        \<bar>sum_list (map round_currency xs) - sum_list xs\<bar> + \<bar>sum_list xs - round_currency (sum_list xs)\<bar>"
    by (metis abs_triangle_ineq)
  also have "\<dots> = \<bar>sum_list (map round_currency xs) - sum_list xs\<bar> + \<bar>round_currency (sum_list xs) - sum_list xs\<bar>"
    by (simp add: abs_minus_commute)
  also have "\<dots> \<le> of_nat (length xs) / 200 + 1 / 200"
    by (intro add_mono round_currency_error sum_rounded_error)
  also have "\<dots> = (of_nat (length xs) + 1) / 200"
    by (simp add: add_divide_distrib)
  finally show ?thesis .
qed

lemma foldl_update_dom:
  "dom (foldl (\<lambda>d item. d(code item \<mapsto> amount item)) m items) = dom m \<union> code ` set items"
  by (induction items arbitrary: m) auto

lemma dict_of_items_dom: "dom (dict_of_items items) = code ` set items"
  by (simp add: dict_of_items_def foldl_update_dom)

lemma foldl_update_Some:
  "foldl (\<lambda>d item. d(code item \<mapsto> amount item)) m items c = Some a \<Longrightarrow>
   m c = Some a \<or> (\<exists>item \<in> set items. code item = c \<and> amount item = a)"
  by (induction items rule: rev_induct) (auto split: if_splits)

lemma dict_of_items_Some:
  "dict_of_items items c = Some a \<Longrightarrow> \<exists>item \<in> set items. code item = c \<and> amount item = a"
  using foldl_update_Some[of Map.empty items c a] by (simp add: dict_of_items_def)

lemma calculate_statutory:
  "statutory_deductions (calculate calc e) =
     dict_of_items (filter (\<lambda>item. category item = ''DEDUCTION'' \<and> code item \<in> set statutory_codes)
                      (res_line_items (calculate calc e)))"
  by (simp add: calculate_def Let_def split_def)

lemma calculate_other:
  "other_deductions (calculate calc e) =
     dict_of_items (filter (\<lambda>item. category item = ''DEDUCTION'' \<and> code item \<notin> set statutory_codes)
                      (res_line_items (calculate calc e)))"
  by (simp add: calculate_def Let_def split_def)

lemma statutory_dom:
  "dom (statutory_deductions (calculate calc e)) =
     {code item | item. item \<in> set (res_line_items (calculate calc e)) \<and>
        category item = ''DEDUCTION'' \<and> code item \<in> set statutory_codes}"
  by (auto simp: calculate_statutory dict_of_items_dom)

lemma other_dom:
  "dom (other_deductions (calculate calc e)) =
     {code item | item. item \<in> set (res_line_items (calculate calc e)) \<and>
        category item = ''DEDUCTION'' \<and> code item \<notin> set statutory_codes}"
  by (auto simp: calculate_other dict_of_items_dom)

section \<open>Claims\<close>

subsection \<open>C1: reconciliation of net salary, payable gross and deductions\<close>




subsection \<open>C5: the progressive bracket evaluator against its specification\<close>

text \<open>
  C5. For every taxable base (non-negative or not) and every bracket table whose lower
  bounds ascend, \<^verbatim>\<open>calculate_progressive_tax\<close> returns the currency-rounded sum, over the
  brackets with base > lower bound, of rate times (min(base, upper bound) - lower bound),
  and the note that joins the "rate% on amount" fragments of those brackets with " + ", or
  "No tax" when there is none; the brackets it applies are the ones before the first bracket
  whose lower bound is at or above the base.
\<close>

theorem progressive_tax_matches_specification:
  "sorted (map fst brackets) \<Longrightarrow>
   calculate_progressive_tax base brackets = spec_progressive_tax base brackets \<and>
   applied_brackets base brackets = takeWhile (\<lambda>(lower', upper', rate'). lower' < base) brackets"
  by (simp add: calculate_progressive_tax_takeWhile spec_progressive_tax_def applied_brackets_def
        sorted_takeWhile_filter)

text \<open>
  The theorem on the Curacao table at a base of 4000.00: four brackets apply, the tax is
  596.71.
\<close>

theorem progressive_tax_matches_specification_witness:
  "sorted (map fst TAX_BRACKETS) \<and>
   calculate_progressive_tax 4000 TAX_BRACKETS =
     (596.71,
      [Fmt 9.75 '''', Lit ''% on '', Fmt 2116.67 '''', Lit '' + '',
       Fmt 15 '''', Lit ''% on '', Fmt 725 '''', Lit '' + '',
       Fmt 23 '''', Lit ''% on '', Fmt 941.66 '''', Lit '' + '',
       Fmt 30 '''', Lit ''% on '', Fmt 216.67 '''']) \<and>
   applied_brackets 4000 TAX_BRACKETS = take 4 TAX_BRACKETS"
proof -
  have h: "sorted (map fst TAX_BRACKETS)" by code_simp
  have v: "spec_progressive_tax 4000 TAX_BRACKETS =
     (596.71,
      [Fmt 9.75 '''', Lit ''% on '', Fmt 2116.67 '''', Lit '' + '',
       Fmt 15 '''', Lit ''% on '', Fmt 725 '''', Lit '' + '',
       Fmt 23 '''', Lit ''% on '', Fmt 941.66 '''', Lit '' + '',
       Fmt 30 '''', Lit ''% on '', Fmt 216.67 ''''])"
    by code_simp
  have t: "takeWhile (\<lambda>(lower', upper', rate'). lower' < 4000) TAX_BRACKETS = take 4 TAX_BRACKETS"
    by code_simp
  show ?thesis
    using h v t progressive_tax_matches_specification[OF h, of 4000] by metis
qed

subsection \<open>C9: the tax is monotone in the base\<close>

text \<open>
  C9. For any bracket table that stands for a jurisdiction, the tax that the progressive
  bracket evaluator returns does not decrease when the taxable base grows, and at a base of
  zero the tax is zero (with the note "No tax").
\<close>

theorem progressive_tax_monotone:
  "jurisdiction_brackets brackets \<Longrightarrow>
   (base \<le> base' \<longrightarrow>
      fst (calculate_progressive_tax base brackets) \<le> fst (calculate_progressive_tax base' brackets)) \<and>
   calculate_progressive_tax 0 brackets = (0, [Lit ''No tax''])"
proof -
  assume j: "jurisdiction_brackets brackets"
  then have s: "sorted (map fst brackets)"
    and v: "list_all (\<lambda>(l, u, r). 0 \<le> l \<and> l \<le> u \<and> 0 \<le> r) brackets"
    by (simp_all add: jurisdiction_brackets_def)
  have eq: "calculate_progressive_tax t brackets = spec_progressive_tax t brackets" for t
    using s by (simp add: calculate_progressive_tax_takeWhile spec_progressive_tax_def applied_brackets_def
        sorted_takeWhile_filter)
  have mono: "base \<le> base' \<longrightarrow>
      fst (calculate_progressive_tax base brackets) \<le> fst (calculate_progressive_tax base' brackets)"
    using applied_sum_mono[OF v] by (auto simp: eq spec_progressive_tax_def intro: round_currency_mono)
  have "applied_brackets 0 brackets = []"
    using v by (auto simp: applied_brackets_def filter_empty_conv list_all_iff)
  then have "calculate_progressive_tax 0 brackets = (0, [Lit ''No tax''])"
    by (simp add: eq spec_progressive_tax_def round_currency_zero)
  with mono show ?thesis by blast
qed

text \<open>
  The four tables of the calculators are of this kind; on the Curacao table the tax is 97.50
  at a base of 1000.00 and 596.71 at 4000.00.
\<close>

theorem progressive_tax_monotone_witness:
  "jurisdiction_brackets TAX_BRACKETS \<and> jurisdiction_brackets ST_MAARTEN_TAX_BRACKETS \<and>
   jurisdiction_brackets ARUBA_TAX_BRACKETS \<and> jurisdiction_brackets BONAIRE_TAX_BRACKETS \<and>
   (1000::rat) \<le> 4000 \<and>
   fst (calculate_progressive_tax 1000 TAX_BRACKETS) = 97.50 \<and>
   fst (calculate_progressive_tax 4000 TAX_BRACKETS) = 596.71 \<and>
   fst (calculate_progressive_tax 1000 TAX_BRACKETS)
     \<le> fst (calculate_progressive_tax 4000 TAX_BRACKETS) \<and>
   calculate_progressive_tax 0 TAX_BRACKETS = (0, [Lit ''No tax''])"
proof -
  have h: "jurisdiction_brackets TAX_BRACKETS" by code_simp
  have others: "jurisdiction_brackets ST_MAARTEN_TAX_BRACKETS \<and>
    jurisdiction_brackets ARUBA_TAX_BRACKETS \<and> jurisdiction_brackets BONAIRE_TAX_BRACKETS"
    by code_simp
  have le: "(1000::rat) \<le> 4000" by simp
  have v1: "fst (calculate_progressive_tax 1000 TAX_BRACKETS) = 97.50" by code_simp
  have v2: "fst (calculate_progressive_tax 4000 TAX_BRACKETS) = 596.71" by code_simp
  show ?thesis
    using h others le v1 v2 progressive_tax_monotone[OF h, of 1000 4000] by metis
qed

subsection \<open>C2: the final wage tax of Curacao\<close>



subsection \<open>C3: the premium credit and the floors\<close>

text \<open>
  C3. For the Curacao calculator and every annualized premium income \<open>A\<close>: the monthly
  premium credit is 0 when \<open>A \<ge> 27633\<close> and otherwise max(9340 - 0.338 A, 0) times 0.065,
  divided by 12; it is never negative. For an employee who is not AOV-exempt the final primary
  premium, the contribution under the key AOV_AWW, is max(raw premium - credit, 0). The final
  tax, which is what \<^verbatim>\<open>calculate_tax\<close> returns for an exempt employee or one without an
  override percentage, is never negative. No bound on the amounts is assumed.
\<close>

theorem premium_credit_and_floor:
  "calculate_aov_aww_korting_monthly A = premium_credit A \<and>
   0 \<le> calculate_aov_aww_korting_monthly A \<and>
   (\<not> aov_exempt e \<longrightarrow>
      map_of (fst (curacao_calculate_social_security e gross s)) ''AOV_AWW'' =
        Some (max (raw_primary_premium gross
                     - calculate_aov_aww_korting_monthly (premium_income gross * 12)) 0)) \<and>
   (tax_exempt e \<or> tax_percentage e = None \<longrightarrow>
      0 \<le> fst (curacao_calculate_tax file e gross s))"
proof -
  have a: "\<not> aov_exempt e \<longrightarrow>
      map_of (fst (curacao_calculate_social_security e gross s)) ''AOV_AWW'' =
        Some (max (raw_primary_premium gross
                     - calculate_aov_aww_korting_monthly (premium_income gross * 12)) 0)"
    by (simp add: curacao_social_aov final_primary_premium_def korting_eq)
  have t: "tax_exempt e \<or> tax_percentage e = None \<longrightarrow>
      0 \<le> fst (curacao_calculate_tax file e gross s)"
  proof (cases "tax_exempt e")
    case True
    then show ?thesis by (simp add: curacao_tax_exempt)
  next
    case False
    then show ?thesis by (auto simp: curacao_tax_standard final_tax_of_nonneg)
  qed
  show ?thesis using a t by (simp add: korting_eq premium_credit_nonneg)
qed

text \<open>
  The theorem at a gross of 500.00: the annual premium income is 5500, the credit of 40.52...
  exceeds the raw premium of 29.79..., and the final premium is 0, as is the tax.
\<close>

theorem premium_credit_and_floor_witness:
  "\<not> aov_exempt (plain_employee ''curacao'' 500) \<and>
   (tax_exempt (plain_employee ''curacao'' 500) \<or>
    tax_percentage (plain_employee ''curacao'' 500) = None) \<and>
   calculate_aov_aww_korting_monthly 5500 = 97253 / 2400 \<and>
   (0::rat) \<le> calculate_aov_aww_korting_monthly 5500 \<and>
   map_of (fst (curacao_calculate_social_security (plain_employee ''curacao'' 500) 500
                  initial_state)) ''AOV_AWW'' = Some 0 \<and>
   0 \<le> fst (curacao_calculate_tax None (plain_employee ''curacao'' 500) 500 initial_state)"
proof -
  have h1: "\<not> aov_exempt (plain_employee ''curacao'' 500)" by code_simp
  have h2: "tax_exempt (plain_employee ''curacao'' 500) \<or>
    tax_percentage (plain_employee ''curacao'' 500) = None" by code_simp
  have v: "premium_credit 5500 = 97253 / 2400" by code_simp
  have w: "max (raw_primary_premium 500
                  - calculate_aov_aww_korting_monthly (premium_income 500 * 12)) 0 = 0"
    by code_simp
  show ?thesis
    using h1 h2 v w
      premium_credit_and_floor[of 5500 "plain_employee ''curacao'' 500" 500 initial_state None]
    by metis
qed

subsection \<open>C4: the three bands of the BVZ contribution\<close>

text \<open>
  C4. For the Curacao calculator the BVZ contribution is given by three bands of annualized
  premium income that exclude one another. Below 12000 the premium is zero and its line
  item carries the exemption reason. From 12000 up to 18000 the premium is the capped monthly
  base at 4.3% less the discount percentage of that premium, and the discount is 3.8%, 2.8%,
  1.9%, 1.1%, 0.6% in the five sub-bands: it never rises with income and falls strictly
  across each sub-band boundary. At 18000 or more the premium is the capped base at 4.3% with
  no discount. In every band one BVZ line item records the premium, rounded to cents.
\<close>

theorem bvz_three_bands:
  "map_of (fst (curacao_calculate_social_security e gross s)) ''BVZ'' = Some (bvz_premium gross) \<and>
   (\<exists>item. item_with_code ''BVZ''
              (appended_items s (snd (curacao_calculate_social_security e gross s))) = Some item \<and>
           category item = ''DEDUCTION'' \<and>
           amount item = round_currency (bvz_premium gross) \<and>
           (premium_income gross * 12 < 12000 \<longrightarrow>
              amount item = 0 \<and>
              item_notes item =
                Some [Lit ''Exempt: income below NAf '', Fmt 12000 ''.2f'', Lit ''/year'']) \<and>
           (12000 \<le> premium_income gross * 12 \<longrightarrow>
              rate item = Some 0.043 \<and>
              base_amount item = Some (min (premium_income gross) (150000 / 12)))) \<and>
   (12000 \<le> A \<and> A < 18000 \<longrightarrow> calculate_bvz_gliding_discount A = bvz_band_discount A) \<and>
   (A < 12000 \<or> 18000 \<le> A \<longrightarrow> calculate_bvz_gliding_discount A = 0) \<and>
   (A \<le> A' \<longrightarrow> bvz_band_discount A' \<le> bvz_band_discount A) \<and>
   (A < b \<and> b \<le> A' \<and> b \<in> {13200, 14400, 15600, 16800} \<longrightarrow>
      bvz_band_discount A' < bvz_band_discount A)"
proof -
  obtain aov_items bvz_item avbz_item where
    items: "line_items (snd (curacao_calculate_social_security e gross s)) =
       line_items s @ aov_items @ [bvz_item, avbz_item]"
    and codes: "map code aov_items = (if aov_exempt e then [] else [''AOV_AWW'', ''KORTING''])"
    and bvz: "code bvz_item = ''BVZ''" "category bvz_item = ''DEDUCTION''"
      "amount bvz_item = round_currency (bvz_premium gross)"
      "premium_income gross * 12 < 12000 \<longrightarrow>
        amount bvz_item = 0 \<and>
        item_notes bvz_item =
          Some [Lit ''Exempt: income below NAf '', Fmt 12000 ''.2f'', Lit ''/year'']"
      "12000 \<le> premium_income gross * 12 \<longrightarrow>
        rate bvz_item = Some 0.043 \<and>
        base_amount bvz_item = Some (min (premium_income gross) (150000 / 12))"
    using curacao_social_items[of e gross s] by blast
  have "item_with_code ''BVZ''
          (appended_items s (snd (curacao_calculate_social_security e gross s))) = Some bvz_item"
    using appended_items_append[OF items] find_bvz[OF codes bvz(1)] by simp
  then have item: "\<exists>item. item_with_code ''BVZ''
              (appended_items s (snd (curacao_calculate_social_security e gross s))) = Some item \<and>
           category item = ''DEDUCTION'' \<and>
           amount item = round_currency (bvz_premium gross) \<and>
           (premium_income gross * 12 < 12000 \<longrightarrow>
              amount item = 0 \<and>
              item_notes item =
                Some [Lit ''Exempt: income below NAf '', Fmt 12000 ''.2f'', Lit ''/year'']) \<and>
           (12000 \<le> premium_income gross * 12 \<longrightarrow>
              rate item = Some 0.043 \<and>
              base_amount item = Some (min (premium_income gross) (150000 / 12)))"
    using bvz by blast
  show ?thesis
    using item curacao_social_bvz[of e gross s] gliding_discount_in_band[of A]
      gliding_discount_outside_band[of A] band_discount_decreasing[of A A']
      band_discount_strict[of A b A']
    by blast
qed

text \<open>
  The theorem at a gross of 1042.35 (annual premium income 12008.20, first sub-band, premium
  41.39...), at a gross of 500.00 (exempt) and at the incomes 15000 and 30000.
\<close>

theorem bvz_three_bands_witness:
  "12000 \<le> premium_income 1042.35 * 12 \<and>
   map_of (fst (curacao_calculate_social_security (plain_employee ''curacao'' 1042.35) 1042.35
                  initial_state)) ''BVZ'' = Some (1241828003 / 30000000) \<and>
   ((12000::rat) \<le> 12008.2 \<and> (12008.2::rat) < 18000) \<and>
   calculate_bvz_gliding_discount 12008.2 = 0.038 \<and>
   ((12008.2::rat) < 13200 \<and> (13200::rat) \<le> 15000 \<and>
    (13200::rat) \<in> {13200, 14400, 15600, 16800}) \<and>
   bvz_band_discount 15000 < bvz_band_discount 12008.2 \<and>
   premium_income 500 * 12 < 12000 \<and>
   map_of (fst (curacao_calculate_social_security (plain_employee ''curacao'' 500) 500
                  initial_state)) ''BVZ'' = Some 0 \<and>
   ((30000::rat) < 12000 \<or> (18000::rat) \<le> 30000) \<and>
   calculate_bvz_gliding_discount 30000 = 0"
proof -
  have h1: "12000 \<le> premium_income 1042.35 * 12" by code_simp
  have h2: "(12000::rat) \<le> 12008.2 \<and> (12008.2::rat) < 18000" by simp
  have h3: "(12008.2::rat) < 13200 \<and> (13200::rat) \<le> 15000 \<and>
    (13200::rat) \<in> {13200, 14400, 15600, 16800}" by simp
  have h4: "premium_income 500 * 12 < 12000" by code_simp
  have h5: "(30000::rat) < 12000 \<or> (18000::rat) \<le> 30000" by simp
  have v1: "bvz_premium 1042.35 = 1241828003 / 30000000" by code_simp
  have v2: "bvz_band_discount 12008.2 = 0.038" by code_simp
  have v3: "bvz_premium 500 = 0" by code_simp
  show ?thesis
    using h1 h2 h3 h4 h5 v1 v2 v3
      bvz_three_bands[of "plain_employee ''curacao'' 1042.35" "1042.35" initial_state
                         "12008.2" 15000 13200]
      bvz_three_bands[of "plain_employee ''curacao'' 500" 500 initial_state 30000 30000 0]
    by metis
qed

subsection \<open>C7: the tax table lookup and the fallback\<close>

text \<open>
  C7, as the code has it. The lookup reads the rows after the header in order. On a table
  whose rows are all well-formed it returns the gross tax of the first row whose half-open
  range contains the base, or the tax of the last row when no row contains it. It returns
  nothing when the file is missing, has no header line or no rows, or when an unreadable row
  is reached before a row that contains the base; a row after the matching one is never
  read. When the lookup returns nothing, the Curacao calculator evaluates the progressive
  brackets on the same tax base; with or without a table, \<^verbatim>\<open>calculate_tax\<close> returns and
  records its one TAX line item.
\<close>

theorem table_lookup_and_fallback:
  "lookup_tax_from_table None tb = None \<and>
   lookup_tax_from_table (Some []) tb = None \<and>
   (list_all well_formed_row rows \<longrightarrow>
      lookup_tax_from_table (Some (header # rows)) tb = table_lookup tb rows) \<and>
   (list_all well_formed_row good \<and> find (row_contains tb) good = None \<and> unreadable_row bad \<longrightarrow>
      lookup_tax_from_table (Some (header # good @ bad # rest)) tb = None) \<and>
   (\<not> tax_exempt e \<and> tax_percentage e = None \<and>
    lookup_tax_from_table file (tax_base_of gross) = None \<longrightarrow>
      fst (curacao_calculate_tax file e gross s) =
        max (fst (calculate_progressive_tax (tax_base_of gross) TAX_BRACKETS) - BASISAFTREK / 12) 0) \<and>
   (\<exists>item. line_items (snd (curacao_calculate_tax file e gross s)) = line_items s @ [item] \<and>
           code item = ''TAX'')"
proof -
  have a: "list_all well_formed_row rows \<longrightarrow>
      lookup_tax_from_table (Some (header # rows)) tb = table_lookup tb rows"
    by (simp add: lookup_tax_from_table_def table_lookup_def lookup_rows_well_formed)
  have b: "list_all well_formed_row good \<and> find (row_contains tb) good = None \<and> unreadable_row bad \<longrightarrow>
      lookup_tax_from_table (Some (header # good @ bad # rest)) tb = None"
    by (simp add: lookup_tax_from_table_def lookup_rows_unreadable)
  have c: "\<not> tax_exempt e \<and> tax_percentage e = None \<and>
    lookup_tax_from_table file (tax_base_of gross) = None \<longrightarrow>
      fst (curacao_calculate_tax file e gross s) =
        max (fst (calculate_progressive_tax (tax_base_of gross) TAX_BRACKETS) - BASISAFTREK / 12) 0"
    by (simp add: curacao_tax_standard final_tax_of_def table_or_brackets_def)
  have d: "\<exists>item. line_items (snd (curacao_calculate_tax file e gross s)) = line_items s @ [item] \<and>
           code item = ''TAX''"
    using curacao_tax_one_item[of "file" e gross s] by blast
  have e: "lookup_tax_from_table None tb = None" "lookup_tax_from_table (Some []) tb = None"
    by (simp_all add: lookup_tax_from_table_def)
  show ?thesis using a b c d e by blast
qed

text \<open>
  The theorem on the example table: a base of 3000 lies in the second row (tax 500), a base
  of 6000 lies beyond the table (the last row's tax, 500). On the damaged table a base of
  3000 reaches the unreadable row and the lookup returns nothing, as it does for the tax
  base of a gross of 4000.00, whose tax then comes from the brackets.
\<close>

theorem table_lookup_and_fallback_witness:
  "list_all well_formed_row example_rows \<and>
   lookup_tax_from_table (Some (example_header # example_rows)) 3000 = Some 500 \<and>
   lookup_tax_from_table (Some (example_header # example_rows)) 6000 = Some 500 \<and>
   (list_all well_formed_row [[Number 0, Number 2000, Number 100]] \<and>
    find (row_contains 3000) [[Number 0, Number 2000, Number 100]] = None \<and>
    unreadable_row [Malformed, Number 5000, Number 500]) \<and>
   lookup_tax_from_table
     (Some (example_header # [[Number 0, Number 2000, Number 100]] @
              [Malformed, Number 5000, Number 500] # [])) 3000 = None \<and>
   (\<not> tax_exempt (plain_employee ''curacao'' 4000) \<and>
    tax_percentage (plain_employee ''curacao'' 4000) = None \<and>
    lookup_tax_from_table (Some damaged_tax_table) (tax_base_of 4000) = None) \<and>
   fst (curacao_calculate_tax (Some damaged_tax_table) (plain_employee ''curacao'' 4000) 4000
          initial_state) = 80959 / 300"
proof -
  have h1: "list_all well_formed_row example_rows" by code_simp
  have h2: "list_all well_formed_row [[Number 0, Number 2000, Number 100]] \<and>
    find (row_contains 3000) [[Number 0, Number 2000, Number 100]] = None \<and>
    unreadable_row [Malformed, Number 5000, Number 500]" by code_simp
  have h3: "\<not> tax_exempt (plain_employee ''curacao'' 4000) \<and>
    tax_percentage (plain_employee ''curacao'' 4000) = None \<and>
    lookup_tax_from_table (Some damaged_tax_table) (tax_base_of 4000) = None" by code_simp
  have v1: "table_lookup 3000 example_rows = Some 500" by code_simp
  have v2: "table_lookup 6000 example_rows = Some 500" by code_simp
  have v3: "max (fst (calculate_progressive_tax (tax_base_of 4000) TAX_BRACKETS) - BASISAFTREK / 12) 0
              = 80959 / 300" by code_simp
  show ?thesis
    using h1 h2 h3 v1 v2 v3
      table_lookup_and_fallback[of 3000 example_rows example_header
        "[[Number 0, Number 2000, Number 100]]" "[Malformed, Number 5000, Number 500]" "[]"
        "plain_employee ''curacao'' 4000" "Some damaged_tax_table" 4000 initial_state]
      table_lookup_and_fallback[of 6000 example_rows example_header
        "[[Number 0, Number 2000, Number 100]]" "[Malformed, Number 5000, Number 500]" "[]"
        "plain_employee ''curacao'' 4000" "Some damaged_tax_table" 4000 initial_state]
    by metis
qed

text \<open>
  C7 as stated fails on the damaged table: its last row is unreadable, yet for a base of
  1000, which the first row contains, the lookup returns that row's tax of 100 and not
  "not available".
\<close>

theorem malformed_row_after_match_counterexample:
  "unreadable_row (last damaged_tax_table) \<and>
   lookup_tax_from_table (Some damaged_tax_table) 1000 = Some 100 \<and>
   lookup_tax_from_table (Some damaged_tax_table) 1000 \<noteq> None"
  by code_simp

subsection \<open>C6: the three paths of the tax stage\<close>

text \<open>
  The tax stage of Curacao has the three paths in the order of the claim, and each records
  one TAX line item: the exempt path (amount 0, the note "Tax exempt status") is
  \<open>curacao_tax_exempt\<close>, the override path is \<open>curacao_tax_override\<close>, the standard path is
  \<open>curacao_tax_standard\<close>. The tax stages of Aruba and Bonaire read neither
  \<^verbatim>\<open>tax_exempt\<close> nor \<^verbatim>\<open>tax_percentage\<close>, and the one of St. Maarten reads only \<^verbatim>\<open>tax_exempt\<close>.
\<close>

lemma aruba_tax_ignores_flags:
  "aruba_calculate_tax (e\<lparr>tax_exempt := exempt, tax_percentage := percentage\<rparr>) gross s =
   aruba_calculate_tax e gross s"
  by (simp add: aruba_calculate_tax_def)

lemma bonaire_tax_ignores_flags:
  "bonaire_calculate_tax (e\<lparr>tax_exempt := exempt, tax_percentage := percentage\<rparr>) gross s =
   bonaire_calculate_tax e gross s"
  by (simp add: bonaire_calculate_tax_def)

lemma st_maarten_tax_ignores_percentage:
  "st_maarten_calculate_tax (e\<lparr>tax_percentage := percentage\<rparr>) gross s =
   st_maarten_calculate_tax e gross s"
  by (simp add: st_maarten_calculate_tax_def)

lemma st_maarten_tax_exempt_no_note:
  "tax_exempt e \<Longrightarrow>
   st_maarten_calculate_tax e gross s =
     (0, add_line_item ''TAX'' ''Income Tax (Exempt)'' ''DEDUCTION'' 0 None None None s)"
  by (simp add: st_maarten_calculate_tax_def)

lemma every_calculator_one_tax_item:
  assumes "calc \<in> snd ` set (CALCULATORS file)"
  shows "\<exists>item. line_items (snd (calculate_tax calc e gross s)) = line_items s @ [item] \<and>
           code item = ''TAX'' \<and> category item = ''DEDUCTION''"
proof -
  consider "calc = curacao_calculator file" | "calc = st_maarten_calculator"
    | "calc = aruba_calculator" | "calc = bonaire_calculator"
    using assms by (auto simp: CALCULATORS_def)
  then show ?thesis
  proof cases
    case 1
    then show ?thesis using curacao_tax_one_item[of "file" e gross s]
      by (simp add: curacao_calculator_def)
  next
    case 2
    then show ?thesis
      by (simp add: st_maarten_calculator_def st_maarten_calculate_tax_def split_def Let_def
          add_line_item_items)
  next
    case 3
    then show ?thesis
      by (simp add: aruba_calculator_def aruba_calculate_tax_def split_def Let_def
          add_line_item_items)
  next
    case 4
    then show ?thesis
      by (simp add: bonaire_calculator_def bonaire_calculate_tax_def split_def Let_def
          add_line_item_items)
  qed
qed

text \<open>
  C6 at a tax-exempt employee of Aruba with a base salary of 1000.00: the tax stage returns
  120 and records the TAX line item with the amount 120.00 and the bracket note, where the
  claim requires the amount 0.00, a note with an exemption marker and the return value 0, as
  the tax stage of Curacao gives them.
\<close>

theorem aruba_taxes_exempt_employee:
  "tax_exempt (exempt_employee ''aruba'' 1000) \<and>
   fst (calculate_tax aruba_calculator (exempt_employee ''aruba'' 1000) 1000 initial_state) = 120 \<and>
   map code (line_items (snd (calculate_tax aruba_calculator (exempt_employee ''aruba'' 1000)
                                 1000 initial_state))) = [''TAX''] \<and>
   map amount (line_items (snd (calculate_tax aruba_calculator (exempt_employee ''aruba'' 1000)
                                 1000 initial_state))) = [120] \<and>
   map item_notes (line_items (snd (calculate_tax aruba_calculator (exempt_employee ''aruba'' 1000)
                                 1000 initial_state)))
     = [Some [Fmt 12 '''', Lit ''% on '', Fmt 1000 '''']] \<and>
   deductions_total (calculate aruba_calculator (exempt_employee ''aruba'' 1000)) = 120 \<and>
   fst (calculate_tax (curacao_calculator None) (exempt_employee ''curacao'' 1000) 1000
          initial_state) = 0 \<and>
   map item_notes (line_items (snd (calculate_tax (curacao_calculator None)
                                 (exempt_employee ''curacao'' 1000) 1000 initial_state)))
     = [Some [Lit ''Tax exempt status'']]"
  by code_simp

end
